theory Spec2Isabelle
  imports Main
begin

section \<open>The command tree\<close>

text \<open>
  The structures of \<^verbatim>\<open>cmd.h\<close>/\<^verbatim>\<open>parser.h\<close> as the code of \<^verbatim>\<open>cmd.c\<close> reads them.
  A pointer that the code tests against \<^verbatim>\<open>NULL\<close> is an \<open>option\<close> (or the constructor
  \<open>NULL\<close> of the tree); a pointer that the code dereferences without a test is a
  plain value.

  A \<^verbatim>\<open>word_t\<close> is one fragment of a word expression: its text, whether the text names
  an environment variable to expand, the next fragment of the same word
  (\<^verbatim>\<open>next_part\<close>) and the next word of a parameter list (\<^verbatim>\<open>next_word\<close>).
\<close>

datatype word =
  Word (string: "string option") (expand: bool) (next_part: "word option") (next_word: "word option")

text \<open>
  The three modes that \<^verbatim>\<open>cmd_redirection\<close> accepts are named; \<open>IO_OTHER\<close> stands for
  every other integer that the field \<^verbatim>\<open>io_flags\<close> can hold (the \<^verbatim>\<open>else\<close> branch
  "Invalid redirection mode").
\<close>

datatype io_mode = IO_REGULAR | IO_OUT_APPEND | IO_ERR_APPEND | IO_OTHER

text \<open>
  A \<^verbatim>\<open>simple_command_t\<close>. The field \<^verbatim>\<open>in\<close> of the source is \<open>inp\<close> here. The verb is
  read by \<^verbatim>\<open>parse_simple\<close> without a test (\<^verbatim>\<open>s->verb->next_part\<close>), so it is not
  optional.
\<close>

record simple_command =
  verb :: word
  params :: "word option"
  inp :: "word option"
  out :: "word option"
  err :: "word option"
  io_flags :: io_mode

datatype operator =
  OP_NONE | OP_SEQUENTIAL | OP_PARALLEL | OP_CONDITIONAL_ZERO | OP_CONDITIONAL_NZERO
  | OP_PIPE | OP_DUMMY

text \<open>
  A \<^verbatim>\<open>command_t *\<close>: the null pointer, or a node with its fields \<^verbatim>\<open>op\<close>, \<^verbatim>\<open>scmd\<close>,
  \<^verbatim>\<open>cmd1\<close> and \<^verbatim>\<open>cmd2\<close>, in this order.
\<close>

datatype command =
  NULL
  | Command operator "simple_command option" command command

section \<open>The process and the operating system\<close>

text \<open>
  The code is run by one process at a time: after \<^verbatim>\<open>fork\<close> the same text continues
  in the parent (where \<^verbatim>\<open>fork\<close> returned the child's pid) and in the child (where it
  returned 0). The model follows one process. Its state is the environment table
  and the list of the system calls it has made so far, each with the value the
  kernel returned.
\<close>

datatype open_flags = O_RDONLY | O_WRONLY_CREAT_TRUNC | O_WRONLY_CREAT_APPEND

text \<open>What \<^verbatim>\<open>waitpid\<close> stores in \<^verbatim>\<open>status\<close>: a normal exit with its code, or a signal.\<close>

datatype wstatus = Exited int | Signaled int

fun WIFEXITED :: "wstatus \<Rightarrow> bool" where
  "WIFEXITED (Exited n) = True"
| "WIFEXITED (Signaled n) = False"

fun WEXITSTATUS :: "wstatus \<Rightarrow> int" where
  "WEXITSTATUS (Exited n) = n mod 256"
| "WEXITSTATUS (Signaled n) = 0"

datatype event =
  EOpen string open_flags int
  | EDup2 int int int
  | EClose int
  | EChdir string int
  | ESetenv string string int
  | EFork int
  | EWaitpid int int wstatus
  | EExecvp string "string list"
  | EPipe int int int
  | EStderr string

type_synonym env = "string \<Rightarrow> string option"

record world =
  environ :: env
  trace :: "event list"

text \<open>
  The kernel is a parameter: for every system call, the value it returns, given
  the number of calls the process has made before (so that two calls with the
  same arguments may return different values).
\<close>

record os =
  os_open :: "nat \<Rightarrow> string \<Rightarrow> open_flags \<Rightarrow> int"
  os_dup2 :: "nat \<Rightarrow> int \<Rightarrow> int \<Rightarrow> int"
  os_chdir :: "nat \<Rightarrow> string \<Rightarrow> int"
  os_setenv :: "nat \<Rightarrow> string \<Rightarrow> string \<Rightarrow> int"
  os_fork :: "nat \<Rightarrow> int"
  os_waitpid :: "nat \<Rightarrow> int \<Rightarrow> int \<times> wstatus"
  os_execvp :: "nat \<Rightarrow> string \<Rightarrow> string list \<Rightarrow> int option"
  os_pipe :: "nat \<Rightarrow> int \<times> int \<times> int"

definition emit :: "event \<Rightarrow> world \<Rightarrow> world" where
  "emit e w = w\<lparr>trace := trace w @ [e]\<rparr>"

definition now :: "world \<Rightarrow> nat" where
  "now w = length (trace w)"

definition sys_open :: "os \<Rightarrow> string \<Rightarrow> open_flags \<Rightarrow> world \<Rightarrow> int \<times> world" where
  "sys_open K path fl w = (let r = os_open K (now w) path fl in (r, emit (EOpen path fl r) w))"

definition sys_dup2 :: "os \<Rightarrow> int \<Rightarrow> int \<Rightarrow> world \<Rightarrow> int \<times> world" where
  "sys_dup2 K oldfd newfd w =
     (let r = os_dup2 K (now w) oldfd newfd in (r, emit (EDup2 oldfd newfd r) w))"

definition sys_close :: "int \<Rightarrow> world \<Rightarrow> world" where
  "sys_close fd w = emit (EClose fd) w"

definition sys_chdir :: "os \<Rightarrow> string \<Rightarrow> world \<Rightarrow> int \<times> world" where
  "sys_chdir K path w = (let r = os_chdir K (now w) path in (r, emit (EChdir path r) w))"

text \<open>\<^verbatim>\<open>setenv(name, value, 1)\<close>: the table changes when the call returns 0.\<close>

definition sys_setenv :: "os \<Rightarrow> string \<Rightarrow> string \<Rightarrow> world \<Rightarrow> int \<times> world" where
  "sys_setenv K name val w =
     (let r = os_setenv K (now w) name val;
          w1 = emit (ESetenv name val r) w
      in (r, if r = 0 then w1\<lparr>environ := (environ w1)(name \<mapsto> val)\<rparr> else w1))"

definition sys_fork :: "os \<Rightarrow> world \<Rightarrow> int \<times> world" where
  "sys_fork K w = (let r = os_fork K (now w) in (r, emit (EFork r) w))"

definition sys_waitpid :: "os \<Rightarrow> int \<Rightarrow> world \<Rightarrow> int \<times> wstatus \<times> world" where
  "sys_waitpid K pid w =
     (case os_waitpid K (now w) pid of (r, st) \<Rightarrow> (r, st, emit (EWaitpid pid r st) w))"

text \<open>\<^verbatim>\<open>execvp\<close> returns only when it fails: \<open>None\<close> is the image replaced.\<close>

definition sys_execvp :: "os \<Rightarrow> string \<Rightarrow> string list \<Rightarrow> world \<Rightarrow> int option \<times> world" where
  "sys_execvp K file argv w = (os_execvp K (now w) file argv, emit (EExecvp file argv) w)"

definition sys_pipe :: "os \<Rightarrow> world \<Rightarrow> int \<times> int \<times> int \<times> world" where
  "sys_pipe K w =
     (case os_pipe K (now w) of (r, rd, wr) \<Rightarrow> (r, rd, wr, emit (EPipe r rd wr) w))"

text \<open>
  How a call of one of the functions ends in the process that made it: it returns
  a value, or the process has called \<^verbatim>\<open>exit\<close>, or the process image has been
  replaced by \<^verbatim>\<open>execvp\<close>.
\<close>

datatype 'a outcome = Returns 'a | Exits int | Execs string "string list"

section \<open>Helpers of \<^verbatim>\<open>utils.c\<close>\<close>

text \<open>
  Modelled from the spec: \<^verbatim>\<open>get_word\<close> is in \<^verbatim>\<open>utils.c\<close>, which is not among the
  sources. The spec: a word expression is a chain of fragments, each a literal or
  the name of an environment variable; it resolves to the concatenation of the
  fragments, a variable that is not set resolving to the empty string; a null
  expression gives the absence value. A fragment without text adds nothing.
\<close>

fun get_word_parts :: "env \<Rightarrow> word \<Rightarrow> string" where
  "get_word_parts e (Word str ex np nw) =
     (case str of
        None \<Rightarrow> []
      | Some t \<Rightarrow> (if ex then (case e t of None \<Rightarrow> [] | Some v \<Rightarrow> v) else t))
     @ (case np of None \<Rightarrow> [] | Some p \<Rightarrow> get_word_parts e p)"

text \<open>
  Modelled from the spec: \<^verbatim>\<open>get_word\<close> of \<^verbatim>\<open>utils.c\<close>, on a pointer that may be null.
\<close>

definition get_word :: "env \<Rightarrow> word option \<Rightarrow> string option" where
  "get_word e s = (case s of None \<Rightarrow> None | Some x \<Rightarrow> Some (get_word_parts e x))"

text \<open>
  Modelled from the spec: \<^verbatim>\<open>get_argv\<close> is in \<^verbatim>\<open>utils.c\<close> too. The spec: the argument
  vector is materialised from the verb and the parameters. \<open>get_words\<close> resolves the
  words of a parameter list, one after the other.
\<close>

fun get_words :: "env \<Rightarrow> word \<Rightarrow> string list" where
  "get_words e (Word str ex np nw) =
     get_word_parts e (Word str ex np nw)
     # (case nw of None \<Rightarrow> [] | Some x \<Rightarrow> get_words e x)"

text \<open>
  Modelled from the spec: \<^verbatim>\<open>get_argv\<close> of \<^verbatim>\<open>utils.c\<close>, the resolved verb followed by
  the resolved parameters.
\<close>

definition get_argv :: "env \<Rightarrow> simple_command \<Rightarrow> string list" where
  "get_argv e s =
     get_word_parts e (verb s) # (case params s of None \<Rightarrow> [] | Some p \<Rightarrow> get_words e p)"

section \<open>Redirection\<close>

abbreviation (input) STDIN_FILENO :: int where "STDIN_FILENO \<equiv> 0"
abbreviation (input) STDOUT_FILENO :: int where "STDOUT_FILENO \<equiv> 1"
abbreviation (input) STDERR_FILENO :: int where "STDERR_FILENO \<equiv> 2"
abbreviation (input) EXIT_SUCCESS :: int where "EXIT_SUCCESS \<equiv> 0"

text \<open>
  \<^verbatim>\<open>redirect_to_file\<close>. The first \<open>case\<close> is the chain of \<^verbatim>\<open>strcmp\<close> tests that
  chooses the target and opens it: it gives the flags as the branch leaves them
  (the \<^verbatim>\<open>out\<close> branch overwrites them for \<^verbatim>\<open>cd\<close>), the descriptor \<open>fd\<close> (still 0
  when the command has no such target) and the state after the call of \<^verbatim>\<open>open\<close>.
  The results of \<^verbatim>\<open>dup2\<close> and \<^verbatim>\<open>close\<close> are not read. The mode \<^verbatim>\<open>0644\<close> given to
  \<^verbatim>\<open>open\<close> is not modelled. Every caller passes a string literal as
  \<^verbatim>\<open>redirection_type\<close>, so that argument is not optional.
\<close>

definition redirect_to_file ::
  "os \<Rightarrow> simple_command option \<Rightarrow> open_flags \<Rightarrow> string \<Rightarrow> bool \<Rightarrow> world \<Rightarrow> int \<times> world" where
  "redirect_to_file K s redirection_flags redirection_type cd_cmd w =
     (case s of
        None \<Rightarrow> (- 1, w)
      | Some sc \<Rightarrow>
          (case
             (if redirection_type = ''in'' then
                Some (redirection_flags,
                      (case get_word (environ w) (inp sc) of
                         None \<Rightarrow> (0, w)
                       | Some std_file_name \<Rightarrow> sys_open K std_file_name O_RDONLY w))
              else if redirection_type = ''out'' then
                (let fl = (if cd_cmd then O_WRONLY_CREAT_TRUNC else redirection_flags)
                 in Some (fl,
                      (case get_word (environ w) (out sc) of
                         None \<Rightarrow> (0, w)
                       | Some std_file_name \<Rightarrow> sys_open K std_file_name fl w)))
              else if redirection_type = ''err'' then
                Some (redirection_flags,
                      (case get_word (environ w) (err sc) of
                         None \<Rightarrow> (0, w)
                       | Some std_file_name \<Rightarrow> sys_open K std_file_name redirection_flags w))
              else None)
           of
             None \<Rightarrow> (- 1, emit (EStderr (''Invalid redirection type'' @ [CHR 0x0A])) w)
           | Some (flags, fd, w1) \<Rightarrow>
               if fd \<le> 0 then (- 1, w1)
               else
                 (let w2 =
                        (if redirection_type = ''in'' then snd (sys_dup2 K fd STDIN_FILENO w1)
                         else if redirection_type = ''out'' \<and> \<not> cd_cmd
                           then snd (sys_dup2 K fd STDOUT_FILENO w1)
                         else if redirection_type = ''err''
                           then snd (sys_dup2 K fd STDERR_FILENO w1)
                         else w1);
                      w3 = sys_close fd w2
                  in
                    if cd_cmd then
                      (case
                         (case get_word (environ w3) (err sc) of
                            None \<Rightarrow> (0, w3)
                          | Some std_file_name \<Rightarrow> sys_open K std_file_name flags w3)
                       of (fd2, w4) \<Rightarrow>
                         if fd2 \<le> 0 then (- 1, w4)
                         else (EXIT_SUCCESS,
                               sys_close fd2 (snd (sys_dup2 K fd2 STDERR_FILENO w4))))
                    else (EXIT_SUCCESS, w3))))"

text \<open>
  \<^verbatim>\<open>cmd_redirection\<close>. The values that the three calls of \<^verbatim>\<open>redirect_to_file\<close>
  return are dropped, as in the source; only the open of a target shared by
  \<^verbatim>\<open>out\<close> and \<^verbatim>\<open>err\<close> is tested.
\<close>

definition cmd_redirection :: "os \<Rightarrow> simple_command \<Rightarrow> world \<Rightarrow> int \<times> world" where
  "cmd_redirection K s w =
     (let output_file_name = get_word (environ w) (out s);
          error_file_name = get_word (environ w) (err s)
      in
        (case
           (case io_flags s of
              IO_REGULAR \<Rightarrow> Some O_WRONLY_CREAT_TRUNC
            | IO_OUT_APPEND \<Rightarrow> Some O_WRONLY_CREAT_APPEND
            | IO_ERR_APPEND \<Rightarrow> Some O_WRONLY_CREAT_APPEND
            | IO_OTHER \<Rightarrow> None)
         of
           None \<Rightarrow> (- 1, emit (EStderr (''Invalid redirection mode'' @ [CHR 0x0A])) w)
         | Some redirection_flags \<Rightarrow>
             (let w1 = snd (redirect_to_file K (Some s) O_RDONLY ''in'' False w)
              in
                (case
                   (case (output_file_name, error_file_name) of
                      (Some a, Some b) \<Rightarrow> if a = b then Some a else None
                    | _ \<Rightarrow> None)
                 of
                   Some name \<Rightarrow>
                     (case sys_open K name redirection_flags w1 of
                        (fd, w2) \<Rightarrow>
                          if fd < 0 then (- 1, w2)
                          else
                            (EXIT_SUCCESS,
                             sys_close fd
                               (snd (sys_dup2 K fd STDERR_FILENO
                                  (snd (sys_dup2 K fd STDOUT_FILENO w2))))))
                 | None \<Rightarrow>
                     (let w2 =
                            (if output_file_name \<noteq> None
                             then snd (redirect_to_file K (Some s) redirection_flags ''out'' False w1)
                             else w1);
                          w3 =
                            (if error_file_name \<noteq> None
                             then snd (redirect_to_file K (Some s) redirection_flags ''err'' False w2)
                             else w2)
                      in (EXIT_SUCCESS, w3))))))"

section \<open>Leaf commands\<close>

text \<open>\<^verbatim>\<open>shell_cd\<close>; on a word that is not null, \<^verbatim>\<open>get_word\<close> is \<open>get_word_parts\<close>.\<close>

definition shell_cd :: "os \<Rightarrow> word option \<Rightarrow> world \<Rightarrow> bool \<times> world" where
  "shell_cd K dir w =
     (case dir of
        None \<Rightarrow> (False, w)
      | Some d \<Rightarrow>
          if string d = None then (False, w)
          else
            (case sys_chdir K (get_word_parts (environ w) d) w of
               (r, w1) \<Rightarrow> if r < 0 then (False, w1) else (True, w1)))"

text \<open>
  \<^verbatim>\<open>SHELL_EXIT\<close> is a macro of \<^verbatim>\<open>cmd.h\<close>, which is not among the sources: it is a
  parameter of every function that uses it.
\<close>

definition shell_exit :: "int \<Rightarrow> int" where
  "shell_exit SHELL_EXIT = SHELL_EXIT"

text \<open>
  \<^verbatim>\<open>parse_simple\<close>, in three parts as the source has them: the builtins, the
  assignment, the external command. \<open>assign_value\<close> is the test of the assignment
  (\<^verbatim>\<open>strchr\<close>, then the two \<^verbatim>\<open>next_part\<close> pointers) and gives the third fragment of
  the verb. The arguments \<^verbatim>\<open>level\<close> and \<^verbatim>\<open>father\<close> are passed on by every function
  and read by none; they are left out.
\<close>

definition assign_value :: "env \<Rightarrow> simple_command \<Rightarrow> word option" where
  "assign_value e s =
     (if CHR ''='' \<in> set (get_word_parts e (verb s)) then
        (case next_part (verb s) of
           None \<Rightarrow> None
         | Some p \<Rightarrow> next_part p)
      else None)"

definition assign_variable :: "os \<Rightarrow> simple_command \<Rightarrow> word \<Rightarrow> world \<Rightarrow> int outcome \<times> world" where
  "assign_variable K s third w =
     (case (string (verb s), get_word (environ w) (Some third)) of
        (Some src, Some dst) \<Rightarrow>
          (case sys_setenv K src dst w of
             (ret_assign, w1) \<Rightarrow> (Returns (if ret_assign \<noteq> 0 then - 1 else 0), w1))
      | _ \<Rightarrow> (Returns (- 1), w))"

definition external_command :: "os \<Rightarrow> simple_command \<Rightarrow> world \<Rightarrow> int outcome \<times> world" where
  "external_command K s w =
     (let curr_cmd = get_word_parts (environ w) (verb s) in
      case sys_fork K w of
        (curr_pid, w1) \<Rightarrow>
          if curr_pid = - 1 then (Returns (- 1), w1)
          else if curr_pid = 0 then
            (case cmd_redirection K s w1 of
               (ret_redir, w2) \<Rightarrow>
                 if ret_redir < 0 then (Returns (- 1), w2)
                 else
                   (case sys_execvp K curr_cmd (get_argv (environ w2) s) w2 of
                      (None, w3) \<Rightarrow> (Execs curr_cmd (get_argv (environ w2) s), w3)
                    | (Some exec_ret, w3) \<Rightarrow>
                        (Exits exec_ret,
                         if exec_ret < 0
                         then emit (EStderr (''Execution failed for '' @ [CHR 0x27] @ curr_cmd
                                             @ [CHR 0x27, CHR 0x0A])) w3
                         else w3)))
          else
            (case sys_waitpid K curr_pid w1 of
               (ret_pid, status, w2) \<Rightarrow>
                 if ret_pid < 0 then (Returns (- 1), w2)
                 else if WIFEXITED status then (Returns (WEXITSTATUS status), w2)
                 else (Returns EXIT_SUCCESS, w2)))"

definition parse_simple :: "int \<Rightarrow> os \<Rightarrow> simple_command option \<Rightarrow> world \<Rightarrow> int outcome \<times> world" where
  "parse_simple SHELL_EXIT K s w =
     (case s of
        None \<Rightarrow> (Returns SHELL_EXIT, w)
      | Some sc \<Rightarrow>
          (let curr_cmd = get_word_parts (environ w) (verb sc) in
           if curr_cmd = ''cd'' then
             (let w1 = snd (redirect_to_file K s O_WRONLY_CREAT_TRUNC ''out'' True w)
              in case shell_cd K (params sc) w1 of
                   (ret_cd, w2) \<Rightarrow> (Returns (if ret_cd then 0 else - 1), w2))
           else if curr_cmd = ''exit'' \<or> curr_cmd = ''quit'' then
             (Returns (shell_exit SHELL_EXIT), w)
           else
             (case assign_value (environ w) sc of
                Some third \<Rightarrow> assign_variable K sc third w
              | None \<Rightarrow> external_command K sc w)))"

section \<open>Operators\<close>

text \<open>
  \<^verbatim>\<open>run_in_parallel\<close> and \<^verbatim>\<open>run_on_pipe\<close> are declared \<^verbatim>\<open>bool\<close>: every value they
  return is converted (\<open>bool_of_int\<close>), and \<^verbatim>\<open>parse_command\<close> stores the result in an
  \<^verbatim>\<open>int\<close> (\<open>int_of_bool\<close>).
\<close>

definition bool_of_int :: "int \<Rightarrow> bool" where
  "bool_of_int i = (i \<noteq> 0)"

definition int_of_bool :: "bool \<Rightarrow> int" where
  "int_of_bool b = (if b then 1 else 0)"

text \<open>
  What a child of \<^verbatim>\<open>run_in_parallel\<close> or \<^verbatim>\<open>run_on_pipe\<close> does with the result of its
  branch: it leaves the function with \<^verbatim>\<open>false\<close> when the result is negative, and calls
  \<^verbatim>\<open>exit\<close> with it otherwise.
\<close>

definition child_finish :: "int outcome \<times> world \<Rightarrow> bool outcome \<times> world" where
  "child_finish x =
     (case x of
        (Returns ret_exec, w) \<Rightarrow> if ret_exec < 0 then (Returns False, w) else (Exits ret_exec, w)
      | (Exits n, w) \<Rightarrow> (Exits n, w)
      | (Execs f a, w) \<Rightarrow> (Execs f a, w))"

text \<open>
  The parent's end of both functions: wait for the first child, then for the
  second. \<open>None\<close> is the path that leaves the \<^verbatim>\<open>switch\<close> without a \<^verbatim>\<open>return\<close> (the
  second child was ended by a signal).
\<close>

definition wait_both :: "os \<Rightarrow> int \<Rightarrow> int \<Rightarrow> world \<Rightarrow> bool option \<times> world" where
  "wait_both K curr_pid1 curr_pid2 w =
     (case sys_waitpid K curr_pid1 w of
        (ret_pid1, status_pid1, w1) \<Rightarrow>
          if ret_pid1 < 0 then (Some (bool_of_int (- 1)), w1)
          else
            (case sys_waitpid K curr_pid2 w1 of
               (ret_pid2, status_pid2, w2) \<Rightarrow>
                 if ret_pid2 < 0 then (Some (bool_of_int (- 1)), w2)
                 else if WIFEXITED status_pid2
                   then (Some (bool_of_int (WEXITSTATUS status_pid2)), w2)
                 else (None, w2)))"

text \<open>A callee that ended the process ends the caller too.\<close>

definition returned_bool :: "bool outcome \<times> world \<Rightarrow> int outcome \<times> world" where
  "returned_bool x =
     (case x of
        (Returns b, w) \<Rightarrow> (Returns (int_of_bool b), w)
      | (Exits n, w) \<Rightarrow> (Exits n, w)
      | (Execs f a, w) \<Rightarrow> (Execs f a, w))"

function (sequential) parse_command :: "int \<Rightarrow> os \<Rightarrow> command \<Rightarrow> world \<Rightarrow> int outcome \<times> world"
  and run_in_parallel :: "int \<Rightarrow> os \<Rightarrow> command \<Rightarrow> command \<Rightarrow> world \<Rightarrow> bool outcome \<times> world"
  and run_on_pipe :: "int \<Rightarrow> os \<Rightarrow> command \<Rightarrow> command \<Rightarrow> world \<Rightarrow> bool outcome \<times> world"
where
  "parse_command SHELL_EXIT K NULL w = (Returns SHELL_EXIT, w)"
| "parse_command SHELL_EXIT K (Command OP_NONE s c1 c2) w = parse_simple SHELL_EXIT K s w"
| "parse_command SHELL_EXIT K (Command OP_SEQUENTIAL s c1 c2) w =
     (case parse_command SHELL_EXIT K c1 w of
        (Returns ret_op_status, w1) \<Rightarrow>
          if ret_op_status < 0 then (Returns ret_op_status, w1)
          else parse_command SHELL_EXIT K c2 w1
      | (Exits n, w1) \<Rightarrow> (Exits n, w1)
      | (Execs f a, w1) \<Rightarrow> (Execs f a, w1))"
| "parse_command SHELL_EXIT K (Command OP_PARALLEL s c1 c2) w =
     returned_bool (run_in_parallel SHELL_EXIT K c1 c2 w)"
| "parse_command SHELL_EXIT K (Command OP_CONDITIONAL_NZERO s c1 c2) w =
     (case parse_command SHELL_EXIT K c1 w of
        (Returns ret_op_status, w1) \<Rightarrow>
          if ret_op_status \<noteq> 0 then parse_command SHELL_EXIT K c2 w1
          else (Returns ret_op_status, w1)
      | (Exits n, w1) \<Rightarrow> (Exits n, w1)
      | (Execs f a, w1) \<Rightarrow> (Execs f a, w1))"
| "parse_command SHELL_EXIT K (Command OP_CONDITIONAL_ZERO s c1 c2) w =
     (case parse_command SHELL_EXIT K c1 w of
        (Returns ret_op_status, w1) \<Rightarrow>
          if ret_op_status = 0 then parse_command SHELL_EXIT K c2 w1
          else (Returns ret_op_status, w1)
      | (Exits n, w1) \<Rightarrow> (Exits n, w1)
      | (Execs f a, w1) \<Rightarrow> (Execs f a, w1))"
| "parse_command SHELL_EXIT K (Command OP_PIPE s c1 c2) w =
     returned_bool (run_on_pipe SHELL_EXIT K c1 c2 w)"
| "parse_command SHELL_EXIT K (Command OP_DUMMY s c1 c2) w = (Returns SHELL_EXIT, w)"
| "run_in_parallel SHELL_EXIT K cmd1 cmd2 w =
     (case sys_fork K w of
        (curr_pid1, w1) \<Rightarrow>
          if curr_pid1 = - 1 then (Returns False, w1)
          else if curr_pid1 = 0 then child_finish (parse_command SHELL_EXIT K cmd1 w1)
          else
            (case sys_fork K w1 of
               (curr_pid2, w2) \<Rightarrow>
                 if curr_pid2 = - 1 then (Returns False, w2)
                 else if curr_pid2 = 0 then child_finish (parse_command SHELL_EXIT K cmd2 w2)
                 else
                   (case wait_both K curr_pid1 curr_pid2 w2 of
                      (Some b, w3) \<Rightarrow> (Returns b, w3)
                    | (None, w3) \<Rightarrow> (Returns (bool_of_int EXIT_SUCCESS), w3))))"
| "run_on_pipe SHELL_EXIT K cmd1 cmd2 w =
     (case sys_pipe K w of
        (ret_pipe, pipefd_READ, pipefd_WRITE, w0) \<Rightarrow>
          if ret_pipe < 0 then (Returns False, w0)
          else
            (case sys_fork K w0 of
               (curr_pid1, w1) \<Rightarrow>
                 if curr_pid1 = - 1 then (Returns False, w1)
                 else if curr_pid1 = 0 then
                   (case sys_dup2 K pipefd_WRITE STDOUT_FILENO (sys_close pipefd_READ w1) of
                      (ret_dup2, w2) \<Rightarrow>
                        if ret_dup2 < 0 then (Returns False, w2)
                        else child_finish (parse_command SHELL_EXIT K cmd1 (sys_close pipefd_WRITE w2)))
                 else
                   (case sys_fork K w1 of
                      (curr_pid2, w2) \<Rightarrow>
                        if curr_pid2 = - 1 then (Returns False, w2)
                        else if curr_pid2 = 0 then
                          (case sys_dup2 K pipefd_READ STDIN_FILENO (sys_close pipefd_WRITE w2) of
                             (ret_dup2, w3) \<Rightarrow>
                               if ret_dup2 < 0 then (Returns False, w3)
                               else child_finish
                                      (parse_command SHELL_EXIT K cmd2 (sys_close pipefd_READ w3)))
                        else
                          (case wait_both K curr_pid1 curr_pid2
                                  (sys_close pipefd_READ (sys_close pipefd_WRITE w2)) of
                             (Some b, w3) \<Rightarrow> (Returns b, w3)
                           | (None, w3) \<Rightarrow>
                               (Returns (bool_of_int EXIT_SUCCESS),
                                sys_close pipefd_WRITE (sys_close pipefd_READ w3))))))"
  by pat_completeness auto

termination
  by (relation "measure (\<lambda>x. case x of
         Inl (_, _, c, _) \<Rightarrow> 2 * size c
       | Inr (Inl (_, _, c1, c2, _)) \<Rightarrow> 2 * (size c1 + size c2) + 1
       | Inr (Inr (_, _, c1, c2, _)) \<Rightarrow> 2 * (size c1 + size c2) + 1)") auto

section \<open>Descriptors in a trace\<close>

text \<open>
  The calls that surround one redirect target, as the trace records them. \<open>dups\<close>
  are the calls of \<^verbatim>\<open>dup2\<close> that copy the descriptor \<open>fd\<close> onto the channels of a
  list, in this order, the first one being the call number \<open>t\<close> of the process.
  \<open>open_dup_close\<close> is an \<^verbatim>\<open>open\<close> of \<open>name\<close> as call number \<open>t\<close> and, when it returns a
  descriptor (a value that is not negative), the copies of that descriptor onto
  the channels and the \<^verbatim>\<open>close\<close> of it; after a failed \<^verbatim>\<open>open\<close> nothing follows.
  \<open>target_block\<close> is the same for a target that may be absent: no call then.
\<close>

fun dups :: "os \<Rightarrow> nat \<Rightarrow> int \<Rightarrow> int list \<Rightarrow> event list" where
  "dups K t fd [] = []"
| "dups K t fd (c # cs) = EDup2 fd c (os_dup2 K t fd c) # dups K (Suc t) fd cs"

definition open_dup_close :: "os \<Rightarrow> nat \<Rightarrow> string \<Rightarrow> open_flags \<Rightarrow> int list \<Rightarrow> event list" where
  "open_dup_close K t name fl chans =
     (let fd = os_open K t name fl
      in if fd < 0 then [EOpen name fl fd]
         else EOpen name fl fd # dups K (Suc t) fd chans @ [EClose fd])"

definition target_block ::
  "os \<Rightarrow> env \<Rightarrow> nat \<Rightarrow> word option \<Rightarrow> open_flags \<Rightarrow> int list \<Rightarrow> event list" where
  "target_block K e t target fl chans =
     (case get_word e target of
        None \<Rightarrow> []
      | Some name \<Rightarrow> open_dup_close K t name fl chans)"

text \<open>The flags that \<^verbatim>\<open>cmd_redirection\<close> computes from a mode that it accepts.\<close>

definition mode_flags :: "io_mode \<Rightarrow> open_flags" where
  "mode_flags m = (if m = IO_REGULAR then O_WRONLY_CREAT_TRUNC else O_WRONLY_CREAT_APPEND)"

section \<open>Inputs for the examples\<close>

text \<open>
  A word of one literal fragment, a word of three literal fragments, a command with
  a one-fragment verb and no redirection, a leaf of the tree, the empty process
  state, and a kernel in which every call succeeds: \<^verbatim>\<open>open\<close> returns descriptor 3,
  \<^verbatim>\<open>fork\<close> returns a fresh pid to the parent, every child exits with 0.
\<close>

definition lit :: "string \<Rightarrow> word" where
  "lit t = Word (Some t) False None None"

definition word3 :: "string \<Rightarrow> string \<Rightarrow> string \<Rightarrow> word" where
  "word3 a b c = Word (Some a) False (Some (Word (Some b) False (Some (lit c)) None)) None"

definition simple :: "string \<Rightarrow> word option \<Rightarrow> simple_command" where
  "simple v p =
     \<lparr>verb = lit v, params = p, inp = None, out = None, err = None, io_flags = IO_REGULAR\<rparr>"

definition leaf :: "simple_command \<Rightarrow> command" where
  "leaf s = Command OP_NONE (Some s) NULL NULL"

definition w0 :: world where
  "w0 = \<lparr>environ = Map.empty, trace = []\<rparr>"

definition os_ok :: os where
  "os_ok =
     \<lparr>os_open = (\<lambda>t p fl. 3), os_dup2 = (\<lambda>t oldfd newfd. newfd), os_chdir = (\<lambda>t p. 0),
      os_setenv = (\<lambda>t n v. 0), os_fork = (\<lambda>t. 1000 + int t),
      os_waitpid = (\<lambda>t pid. (pid, Exited 0)), os_execvp = (\<lambda>t f a. None),
      os_pipe = (\<lambda>t. (0, 3, 4))\<rparr>"

section \<open>Basic facts\<close>

lemmas fixture_defs = lit_def word3_def simple_def leaf_def os_ok_def w0_def

lemmas leaf_defs = parse_simple_def shell_exit_def redirect_to_file_def cmd_redirection_def
  shell_cd_def assign_value_def assign_variable_def external_command_def get_word_def
  get_argv_def

lemmas sys_defs = sys_open_def sys_dup2_def sys_close_def sys_chdir_def sys_setenv_def
  sys_fork_def sys_waitpid_def sys_execvp_def sys_pipe_def emit_def now_def Let_def

lemmas op_defs = child_finish_def wait_both_def returned_bool_def bool_of_int_def
  int_of_bool_def

lemma trace_emit [simp]: "trace (emit e w) = trace w @ [e]"
  by (simp add: emit_def)

lemma environ_emit [simp]: "environ (emit e w) = environ w"
  by (simp add: emit_def)

lemma sys_open_eq:
  "sys_open K p fl w = (os_open K (now w) p fl, emit (EOpen p fl (os_open K (now w) p fl)) w)"
  by (simp add: sys_open_def Let_def)

lemma sys_dup2_eq:
  "sys_dup2 K a b w = (os_dup2 K (now w) a b, emit (EDup2 a b (os_dup2 K (now w) a b)) w)"
  by (simp add: sys_dup2_def Let_def)

section \<open>The conditional operators\<close>

text \<open>
  Claim C1. Let the left command of a conditional node return the status \<open>r\<close> in the
  evaluating process, leaving the process in the state \<open>w1\<close>. The node with
  \<^verbatim>\<open>OP_CONDITIONAL_NZERO\<close> then evaluates the right command from \<open>w1\<close> and has its
  result when \<open>r\<close> is not zero, and returns \<open>r\<close> in the state \<open>w1\<close> (nothing of the
  right command has run) when \<open>r\<close> is zero. The node with \<^verbatim>\<open>OP_CONDITIONAL_ZERO\<close> is
  the mirror image: the right command runs when \<open>r\<close> is zero.
\<close>

theorem conditional_right_runs_by_left_status:
  assumes "parse_command SE K A w = (Returns r, w1)"
  shows "parse_command SE K (Command OP_CONDITIONAL_NZERO s A B) w =
           (if r \<noteq> 0 then parse_command SE K B w1 else (Returns r, w1))
       \<and> parse_command SE K (Command OP_CONDITIONAL_ZERO s A B) w =
           (if r = 0 then parse_command SE K B w1 else (Returns r, w1))"
  using assms by simp

text \<open>
  An instance: \<^verbatim>\<open>cd /tmp\<close> succeeds with 0, so the first node stops there and the
  second goes on to \<^verbatim>\<open>cd /usr\<close>.
\<close>

theorem conditional_right_runs_by_left_status_witness:
  "parse_command (- 100) os_ok (leaf (simple ''cd'' (Some (lit ''/tmp'')))) w0 =
     (Returns 0, w0\<lparr>trace := [EChdir ''/tmp'' 0]\<rparr>)
   \<and> parse_command (- 100) os_ok
       (Command OP_CONDITIONAL_NZERO None (leaf (simple ''cd'' (Some (lit ''/tmp''))))
          (leaf (simple ''cd'' (Some (lit ''/usr''))))) w0 =
     (Returns 0, w0\<lparr>trace := [EChdir ''/tmp'' 0]\<rparr>)
   \<and> parse_command (- 100) os_ok
       (Command OP_CONDITIONAL_ZERO None (leaf (simple ''cd'' (Some (lit ''/tmp''))))
          (leaf (simple ''cd'' (Some (lit ''/usr''))))) w0 =
     (Returns 0, w0\<lparr>trace := [EChdir ''/tmp'' 0, EChdir ''/usr'' 0]\<rparr>)"
proof -
  have left: "parse_command (- 100) os_ok (leaf (simple ''cd'' (Some (lit ''/tmp'')))) w0 =
     (Returns 0, w0\<lparr>trace := [EChdir ''/tmp'' 0]\<rparr>)"
    by (simp add: fixture_defs leaf_defs sys_defs)
  have right: "parse_command (- 100) os_ok (leaf (simple ''cd'' (Some (lit ''/usr''))))
      (w0\<lparr>trace := [EChdir ''/tmp'' 0]\<rparr>) =
     (Returns 0, w0\<lparr>trace := [EChdir ''/tmp'' 0, EChdir ''/usr'' 0]\<rparr>)"
    by (simp add: fixture_defs leaf_defs sys_defs)
  show ?thesis
    using conditional_right_runs_by_left_status [OF left, of None
        "leaf (simple ''cd'' (Some (lit ''/usr'')))"] left right
    by simp
qed

text \<open>
  When the left command does not return because the process has ended in it (a
  child that has called \<^verbatim>\<open>exit\<close>, or whose image \<^verbatim>\<open>execvp\<close> has replaced), nothing
  more of the node is evaluated in that process.
\<close>

lemma left_command_ends_process:
  assumes "parse_command SE K A w = (x, w1)" "x = Exits n \<or> x = Execs f a"
  shows "parse_command SE K (Command OP_SEQUENTIAL s A B) w = (x, w1)"
    and "parse_command SE K (Command OP_CONDITIONAL_NZERO s A B) w = (x, w1)"
    and "parse_command SE K (Command OP_CONDITIONAL_ZERO s A B) w = (x, w1)"
  using assms by auto

section \<open>The exit request\<close>

text \<open>
  The value of \<^verbatim>\<open>SHELL_EXIT\<close> that \<^verbatim>\<open>exit\<close> and \<^verbatim>\<open>quit\<close> return goes through
  \<^verbatim>\<open>OP_SEQUENTIAL\<close> when it is negative and through \<^verbatim>\<open>OP_CONDITIONAL_ZERO\<close> when it is
  not zero: the right command is not evaluated. \<^verbatim>\<open>OP_CONDITIONAL_NZERO\<close> evaluates the
  right command on it, as on every status other than zero.
\<close>

lemma shell_exit_through_operators:
  assumes "parse_command SE K A w = (Returns SE, w1)"
  shows "SE < 0 \<Longrightarrow> parse_command SE K (Command OP_SEQUENTIAL s A B) w = (Returns SE, w1)"
    and "SE \<noteq> 0 \<Longrightarrow> parse_command SE K (Command OP_CONDITIONAL_ZERO s A B) w = (Returns SE, w1)"
    and "SE \<noteq> 0 \<Longrightarrow>
           parse_command SE K (Command OP_CONDITIONAL_NZERO s A B) w = parse_command SE K B w1"
  using assms by simp_all

text \<open>
  Claim C2, at the input where the code departs from it: \<^verbatim>\<open>exit\<close> on the left of
  \<^verbatim>\<open>OP_CONDITIONAL_NZERO\<close>, \<^verbatim>\<open>cd /tmp\<close> on the right, \<^verbatim>\<open>SHELL_EXIT\<close> being -100. The
  right command runs (the trace holds its \<^verbatim>\<open>chdir\<close>) and the node returns 0, not
  the exit request.
\<close>

theorem exit_left_of_nzero_runs_right:
  "parse_command (- 100) os_ok (leaf (simple ''exit'' None)) w0 = (Returns (- 100), w0)
   \<and> parse_command (- 100) os_ok
       (Command OP_CONDITIONAL_NZERO None (leaf (simple ''exit'' None))
          (leaf (simple ''cd'' (Some (lit ''/tmp''))))) w0 =
     (Returns 0, w0\<lparr>trace := [EChdir ''/tmp'' 0]\<rparr>)"
  by (simp add: fixture_defs leaf_defs sys_defs)

section \<open>Sequencing\<close>

text \<open>
  Claim C3 as stated fails: a \<^verbatim>\<open>cd\<close> whose \<^verbatim>\<open>chdir\<close> fails returns -1, which is
  neither \<^verbatim>\<open>SHELL_EXIT\<close> (here -100) nor the result of a null node, and the
  sequential node returns that -1 without evaluating its right command \<^verbatim>\<open>ls\<close>
  (which, evaluated from the same state, would fork and return 0).
\<close>

theorem failed_cd_suppresses_right:
  "parse_command (- 100) (os_ok\<lparr>os_chdir := (\<lambda>t p. - 1)\<rparr>)
       (leaf (simple ''cd'' (Some (lit ''/missing'')))) w0 =
     (Returns (- 1), w0\<lparr>trace := [EChdir ''/missing'' (- 1)]\<rparr>)
   \<and> (- 1 :: int) \<noteq> - 100
   \<and> parse_command (- 100) (os_ok\<lparr>os_chdir := (\<lambda>t p. - 1)\<rparr>)
       (Command OP_SEQUENTIAL None (leaf (simple ''cd'' (Some (lit ''/missing''))))
          (leaf (simple ''ls'' None))) w0 =
     (Returns (- 1), w0\<lparr>trace := [EChdir ''/missing'' (- 1)]\<rparr>)
   \<and> parse_command (- 100) (os_ok\<lparr>os_chdir := (\<lambda>t p. - 1)\<rparr>) (leaf (simple ''ls'' None))
       (w0\<lparr>trace := [EChdir ''/missing'' (- 1)]\<rparr>) =
     (Returns 0, w0\<lparr>trace := [EChdir ''/missing'' (- 1), EFork 1001,
                                 EWaitpid 1001 1001 (Exited 0)]\<rparr>)"
  by (simp add: fixture_defs leaf_defs sys_defs)

text \<open>
  Claim C3, amended. Let the left command of a sequential node return the status
  \<open>r\<close> in the evaluating process, leaving the state \<open>w1\<close>. When \<open>r\<close> is not negative
  (0, or the exit code 1 to 255 of an external command), the right command is
  evaluated from \<open>w1\<close> and its result is the node's. When \<open>r\<close> is negative (the exit
  request, a null node, or the -1 of a failed \<^verbatim>\<open>cd\<close>, assignment, \<^verbatim>\<open>fork\<close> or
  \<^verbatim>\<open>waitpid\<close>), the node returns \<open>r\<close> at once.
\<close>

theorem sequential_right_runs_after_nonnegative_left:
  assumes "parse_command SE K A w = (Returns r, w1)"
  shows "parse_command SE K (Command OP_SEQUENTIAL s A B) w =
           (if 0 \<le> r then parse_command SE K B w1 else (Returns r, w1))"
  using assms by simp

text \<open>An instance: \<^verbatim>\<open>false\<close> exits with 1, and \<^verbatim>\<open>cd /tmp\<close> runs after it.\<close>

theorem sequential_right_runs_after_nonnegative_left_witness:
  "parse_command (- 100) (os_ok\<lparr>os_waitpid := (\<lambda>t pid. (pid, Exited 1))\<rparr>)
       (leaf (simple ''false'' None)) w0 =
     (Returns 1, w0\<lparr>trace := [EFork 1000, EWaitpid 1000 1000 (Exited 1)]\<rparr>)
   \<and> parse_command (- 100) (os_ok\<lparr>os_waitpid := (\<lambda>t pid. (pid, Exited 1))\<rparr>)
       (Command OP_SEQUENTIAL None (leaf (simple ''false'' None))
          (leaf (simple ''cd'' (Some (lit ''/tmp''))))) w0 =
     (Returns 0, w0\<lparr>trace := [EFork 1000, EWaitpid 1000 1000 (Exited 1), EChdir ''/tmp'' 0]\<rparr>)"
proof -
  let ?K = "os_ok\<lparr>os_waitpid := (\<lambda>t pid. (pid, Exited 1))\<rparr>"
  have left: "parse_command (- 100) ?K (leaf (simple ''false'' None)) w0 =
     (Returns 1, w0\<lparr>trace := [EFork 1000, EWaitpid 1000 1000 (Exited 1)]\<rparr>)"
    by (simp add: fixture_defs leaf_defs sys_defs)
  have right: "parse_command (- 100) ?K (leaf (simple ''cd'' (Some (lit ''/tmp''))))
      (w0\<lparr>trace := [EFork 1000, EWaitpid 1000 1000 (Exited 1)]\<rparr>) =
     (Returns 0, w0\<lparr>trace := [EFork 1000, EWaitpid 1000 1000 (Exited 1), EChdir ''/tmp'' 0]\<rparr>)"
    by (simp add: fixture_defs leaf_defs sys_defs)
  show ?thesis
    using sequential_right_runs_after_nonnegative_left [OF left, of None
        "leaf (simple ''cd'' (Some (lit ''/tmp'')))"] left right
    by simp
qed

section \<open>Two children\<close>

text \<open>
  The parent's path through \<^verbatim>\<open>run_in_parallel\<close>: both calls of \<^verbatim>\<open>fork\<close> return a pid,
  both calls of \<^verbatim>\<open>waitpid\<close> succeed, the second child has exited with the code \<open>n\<close>.
  The parent has forked twice and waited for the first child, then for the second;
  the value it returns is the exit code converted to \<^verbatim>\<open>bool\<close>.
\<close>

lemma run_in_parallel_parent:
  assumes "os_fork K (now w) = p1" "p1 \<noteq> - 1" "p1 \<noteq> 0"
    and "os_fork K (now w + 1) = p2" "p2 \<noteq> - 1" "p2 \<noteq> 0"
    and "os_waitpid K (now w + 2) p1 = (r1, st1)" "0 \<le> r1"
    and "os_waitpid K (now w + 3) p2 = (r2, Exited n)" "0 \<le> r2"
  shows "parse_command SE K (Command OP_PARALLEL s A B) w =
           (Returns (if n mod 256 = 0 then 0 else 1),
            w\<lparr>trace := trace w @
                [EFork p1, EFork p2, EWaitpid p1 r1 st1, EWaitpid p2 r2 (Exited n)]\<rparr>)"
  using assms by (simp add: sys_defs op_defs eval_nat_numeral)

text \<open>
  The second child's path: the second \<^verbatim>\<open>fork\<close> returns 0. When its branch returns
  a status \<open>r\<close> that is not negative, the child calls \<^verbatim>\<open>exit\<close> with \<open>r\<close>, so \<open>r\<close> (modulo
  256) is the exit status that the parent's \<^verbatim>\<open>waitpid\<close> receives.
\<close>

lemma run_in_parallel_second_child:
  assumes "os_fork K (now w) = p1" "p1 \<noteq> - 1" "p1 \<noteq> 0"
    and "os_fork K (now w + 1) = 0"
    and "parse_command SE K B (w\<lparr>trace := trace w @ [EFork p1, EFork 0]\<rparr>) = (Returns r, w')"
    and "0 \<le> r"
  shows "parse_command SE K (Command OP_PARALLEL s A B) w = (Exits r, w')"
  using assms by (simp add: sys_defs op_defs eval_nat_numeral)

text \<open>
  Claim C4, at the input where the code departs from it: both children exit with
  the code 2. The parent waits for both, the first one first, and the node's
  result is 1, for \<^verbatim>\<open>OP_PARALLEL\<close> and for \<^verbatim>\<open>OP_PIPE\<close>, while the second child's exit
  status is 2.
\<close>

theorem parallel_and_pipe_report_one_for_status_two:
  "parse_command (- 100) (os_ok\<lparr>os_waitpid := (\<lambda>t pid. (pid, Exited 2))\<rparr>)
       (Command OP_PARALLEL None (leaf (simple ''true'' None)) (leaf (simple ''ls'' None))) w0 =
     (Returns 1,
      w0\<lparr>trace := [EFork 1000, EFork 1001, EWaitpid 1000 1000 (Exited 2),
                    EWaitpid 1001 1001 (Exited 2)]\<rparr>)
   \<and> parse_command (- 100) (os_ok\<lparr>os_waitpid := (\<lambda>t pid. (pid, Exited 2))\<rparr>)
       (Command OP_PIPE None (leaf (simple ''true'' None)) (leaf (simple ''ls'' None))) w0 =
     (Returns 1,
      w0\<lparr>trace := [EPipe 0 3 4, EFork 1001, EFork 1002, EClose 4, EClose 3,
                    EWaitpid 1001 1001 (Exited 2), EWaitpid 1002 1002 (Exited 2)]\<rparr>)
   \<and> WEXITSTATUS (Exited 2) = 2"
  by (simp add: fixture_defs sys_defs op_defs)

text \<open>
  Claim C8, at the input where the code departs from it: the first \<^verbatim>\<open>fork\<close> fails.
  \<^verbatim>\<open>run_in_parallel\<close> and \<^verbatim>\<open>run_on_pipe\<close> stop there and return \<^verbatim>\<open>false\<close>, which is the
  status 0 of a success in \<^verbatim>\<open>parse_command\<close>.
\<close>

theorem failed_fork_in_parallel_and_pipe_returns_zero:
  "parse_command (- 100) (os_ok\<lparr>os_fork := (\<lambda>t. - 1)\<rparr>)
       (Command OP_PARALLEL None (leaf (simple ''true'' None)) (leaf (simple ''ls'' None))) w0 =
     (Returns 0, w0\<lparr>trace := [EFork (- 1)]\<rparr>)
   \<and> parse_command (- 100) (os_ok\<lparr>os_fork := (\<lambda>t. - 1)\<rparr>)
       (Command OP_PIPE None (leaf (simple ''true'' None)) (leaf (simple ''ls'' None))) w0 =
     (Returns 0, w0\<lparr>trace := [EPipe 0 3 4, EFork (- 1)]\<rparr>)"
  by (simp add: fixture_defs sys_defs op_defs)

text \<open>The same for every input: a first \<^verbatim>\<open>fork\<close> that fails gives the status 0.\<close>

lemma failed_first_fork_returns_zero:
  assumes "os_fork K (now w) = - 1"
  shows "parse_command SE K (Command OP_PARALLEL s A B) w =
           (Returns 0, w\<lparr>trace := trace w @ [EFork (- 1)]\<rparr>)"
  using assms by (simp add: sys_defs op_defs)

text \<open>
  What does hold of claim C8: in the external command, a failed \<^verbatim>\<open>fork\<close> and a failed
  \<^verbatim>\<open>waitpid\<close> return -1; in \<^verbatim>\<open>run_in_parallel\<close>, a failed \<^verbatim>\<open>waitpid\<close> for the first child
  returns at once, with the status 1.
\<close>

lemma failed_fork_or_wait_elsewhere:
  shows "os_fork K (now w) = - 1 \<Longrightarrow>
           external_command K sc w = (Returns (- 1), w\<lparr>trace := trace w @ [EFork (- 1)]\<rparr>)"
    and "os_fork K (now w) = p \<Longrightarrow> p \<noteq> - 1 \<Longrightarrow> p \<noteq> 0 \<Longrightarrow>
         os_waitpid K (now w + 1) p = (r, st) \<Longrightarrow> r < 0 \<Longrightarrow>
           external_command K sc w =
             (Returns (- 1), w\<lparr>trace := trace w @ [EFork p, EWaitpid p r st]\<rparr>)"
    and "os_fork K (now w) = p1 \<Longrightarrow> p1 \<noteq> - 1 \<Longrightarrow> p1 \<noteq> 0 \<Longrightarrow>
         os_fork K (now w + 1) = p2 \<Longrightarrow> p2 \<noteq> - 1 \<Longrightarrow> p2 \<noteq> 0 \<Longrightarrow>
         os_waitpid K (now w + 2) p1 = (r, st) \<Longrightarrow> r < 0 \<Longrightarrow>
           parse_command SE K (Command OP_PARALLEL s A B) w =
             (Returns 1, w\<lparr>trace := trace w @ [EFork p1, EFork p2, EWaitpid p1 r st]\<rparr>)"
  by (simp_all add: external_command_def sys_defs op_defs eval_nat_numeral)

section \<open>Redirection of a leaf command\<close>

text \<open>
  Claim C5, at the input where the code departs from it: \<^verbatim>\<open>cat < missing.txt\<close> in the
  child (where \<^verbatim>\<open>fork\<close> has returned 0), when the file cannot be opened.
  \<^verbatim>\<open>redirect_to_file\<close> returns -1, \<^verbatim>\<open>cmd_redirection\<close> drops that value and returns
  0, and the child goes on to \<^verbatim>\<open>execvp\<close>.
\<close>

theorem failed_input_open_still_execs:
  "redirect_to_file (os_ok\<lparr>os_fork := (\<lambda>t. 0), os_open := (\<lambda>t p fl. - 1)\<rparr>)
       (Some ((simple ''cat'' None)\<lparr>inp := Some (lit ''missing.txt'')\<rparr>)) O_RDONLY ''in'' False w0 =
     (- 1, w0\<lparr>trace := [EOpen ''missing.txt'' O_RDONLY (- 1)]\<rparr>)
   \<and> cmd_redirection (os_ok\<lparr>os_fork := (\<lambda>t. 0), os_open := (\<lambda>t p fl. - 1)\<rparr>)
       ((simple ''cat'' None)\<lparr>inp := Some (lit ''missing.txt'')\<rparr>) w0 =
     (0, w0\<lparr>trace := [EOpen ''missing.txt'' O_RDONLY (- 1)]\<rparr>)
   \<and> parse_command (- 100) (os_ok\<lparr>os_fork := (\<lambda>t. 0), os_open := (\<lambda>t p fl. - 1)\<rparr>)
       (leaf ((simple ''cat'' None)\<lparr>inp := Some (lit ''missing.txt'')\<rparr>)) w0 =
     (Execs ''cat'' [''cat''],
      w0\<lparr>trace := [EFork 0, EOpen ''missing.txt'' O_RDONLY (- 1), EExecvp ''cat'' [''cat'']]\<rparr>)"
  by (simp add: fixture_defs leaf_defs sys_defs)

text \<open>
  The only failures that \<^verbatim>\<open>cmd_redirection\<close> reports: a mode that is none of the
  three, and a target shared by \<^verbatim>\<open>out\<close> and \<^verbatim>\<open>err\<close> that cannot be opened. With
  different targets, or one target only, it returns 0 whatever \<^verbatim>\<open>open\<close> returns.
\<close>

lemma cmd_redirection_separate_targets_return_zero:
  assumes "io_flags s \<noteq> IO_OTHER"
    and "get_word (environ w) (out s) = None \<or> get_word (environ w) (err s) = None
         \<or> get_word (environ w) (out s) \<noteq> get_word (environ w) (err s)"
  shows "fst (cmd_redirection K s w) = 0"
  using assms
  by (cases "io_flags s") (auto simp: cmd_redirection_def Let_def split: option.splits)

lemma environ_redirect_to_file [simp]:
  "environ (snd (redirect_to_file K s fl ty cd w)) = environ w"
  by (cases s)
    (auto simp: redirect_to_file_def sys_open_eq sys_dup2_eq sys_close_def Let_def
      split: option.splits)




section \<open>Redirection of \<^verbatim>\<open>cd\<close>\<close>

text \<open>
  What \<^verbatim>\<open>cd\<close> does with an \<^verbatim>\<open>out\<close> target that opens with a descriptor above 0: no
  \<^verbatim>\<open>dup2\<close> onto channel 1; the file is opened with the truncating flags and closed,
  and then the \<^verbatim>\<open>err\<close> target, when there is one and it opens, is opened with the
  same flags, copied onto channel 2 and closed.
\<close>

lemma cd_redirection_with_out_target:
  assumes "get_word (environ w) (out sc) = Some o_name"
    and "os_open K (now w) o_name O_WRONLY_CREAT_TRUNC = fd" "0 < fd"
  shows "redirect_to_file K (Some sc) fl ''out'' True w =
     (let w3 = w\<lparr>trace := trace w @ [EOpen o_name O_WRONLY_CREAT_TRUNC fd, EClose fd]\<rparr>
      in case get_word (environ w) (err sc) of
           None \<Rightarrow> (- 1, w3)
         | Some e_name \<Rightarrow>
             (let fd2 = os_open K (now w + 2) e_name O_WRONLY_CREAT_TRUNC
              in if fd2 \<le> 0
                 then (- 1, w3\<lparr>trace := trace w3 @ [EOpen e_name O_WRONLY_CREAT_TRUNC fd2]\<rparr>)
                 else (0, w3\<lparr>trace := trace w3 @
                         [EOpen e_name O_WRONLY_CREAT_TRUNC fd2,
                          EDup2 fd2 2 (os_dup2 K (now w + 3) fd2 2),
                          EClose fd2]\<rparr>)))"
  using assms
  by (simp add: redirect_to_file_def sys_defs eval_nat_numeral split: option.splits)

text \<open>
  Without an \<^verbatim>\<open>out\<close> target, the call that \<^verbatim>\<open>cd\<close> makes returns -1 and does nothing,
  whatever the \<^verbatim>\<open>err\<close> target is.
\<close>

lemma cd_redirection_without_out_target:
  assumes "get_word (environ w) (out sc) = None"
  shows "redirect_to_file K (Some sc) fl ''out'' True w = (- 1, w)"
  using assms by (simp add: redirect_to_file_def)

text \<open>
  Claim C7, at the input where the code departs from it: \<^verbatim>\<open>cd /tmp 2> e.txt\<close>, with
  no \<^verbatim>\<open>out\<close> target. \<^verbatim>\<open>redirect_to_file\<close> leaves at the test of the \<^verbatim>\<open>out\<close> descriptor,
  which is still 0: it returns -1 and has made no call, so \<^verbatim>\<open>e.txt\<close> is not opened
  and channel 2 is not changed. The command then changes the directory.
\<close>

theorem cd_without_out_target_skips_err_target:
  "redirect_to_file os_ok (Some ((simple ''cd'' (Some (lit ''/tmp'')))\<lparr>err := Some (lit ''e.txt'')\<rparr>))
       O_WRONLY_CREAT_TRUNC ''out'' True w0 = (- 1, w0)
   \<and> parse_command (- 100) os_ok
       (leaf ((simple ''cd'' (Some (lit ''/tmp'')))\<lparr>err := Some (lit ''e.txt'')\<rparr>)) w0 =
     (Returns 0, w0\<lparr>trace := [EChdir ''/tmp'' 0]\<rparr>)"
  by (simp add: fixture_defs leaf_defs sys_defs)

section \<open>Every opened descriptor is closed\<close>

text \<open>
  Claim C9 as stated fails for the \<^verbatim>\<open>out\<close> target of \<^verbatim>\<open>cd\<close>: in \<^verbatim>\<open>cd /tmp > o.txt\<close>
  the file is opened with descriptor 3, and the descriptor is closed without
  having been copied onto channel 1: the trace has no call of \<^verbatim>\<open>dup2\<close>.
\<close>

theorem cd_out_descriptor_closed_without_dup:
  "redirect_to_file os_ok (Some ((simple ''cd'' (Some (lit ''/tmp'')))\<lparr>out := Some (lit ''o.txt'')\<rparr>))
       O_WRONLY_CREAT_TRUNC ''out'' True w0 =
     (- 1, w0\<lparr>trace := [EOpen ''o.txt'' O_WRONLY_CREAT_TRUNC 3, EClose 3]\<rparr>)
   \<and> open_dup_close os_ok 0 ''o.txt'' O_WRONLY_CREAT_TRUNC [1] =
       [EOpen ''o.txt'' O_WRONLY_CREAT_TRUNC 3, EDup2 3 1 1, EClose 3]
   \<and> [EOpen ''o.txt'' O_WRONLY_CREAT_TRUNC 3, EClose 3] \<noteq>
       open_dup_close os_ok 0 ''o.txt'' O_WRONLY_CREAT_TRUNC [1]"
  by (simp add: fixture_defs leaf_defs sys_defs open_dup_close_def)

text \<open>
  In a process where \<^verbatim>\<open>open\<close> never returns descriptor 0, what one call of
  \<^verbatim>\<open>redirect_to_file\<close> does outside the \<^verbatim>\<open>cd\<close> path: the process state changes by the
  calls for the one target, on its own channel.
\<close>

lemma redirect_to_file_in:
  assumes nz: "\<And>t p fl. os_open K t p fl \<noteq> 0"
  shows "snd (redirect_to_file K (Some sc) fl ''in'' False w) =
           w\<lparr>trace := trace w @ target_block K (environ w) (now w) (inp sc) O_RDONLY [0]\<rparr>"
proof -
  have le: "\<And>t p fl. (os_open K t p fl \<le> 0) = (os_open K t p fl < 0)"
    using nz by (simp add: order_less_le)
  show ?thesis
    by (simp add: redirect_to_file_def target_block_def open_dup_close_def sys_defs le
        split: option.splits)
qed

lemma redirect_to_file_out:
  assumes nz: "\<And>t p fl. os_open K t p fl \<noteq> 0"
  shows "snd (redirect_to_file K (Some sc) fl ''out'' False w) =
           w\<lparr>trace := trace w @ target_block K (environ w) (now w) (out sc) fl [1]\<rparr>"
proof -
  have le: "\<And>t p fl. (os_open K t p fl \<le> 0) = (os_open K t p fl < 0)"
    using nz by (simp add: order_less_le)
  show ?thesis
    by (simp add: redirect_to_file_def target_block_def open_dup_close_def sys_defs le
        split: option.splits)
qed

lemma redirect_to_file_err:
  assumes nz: "\<And>t p fl. os_open K t p fl \<noteq> 0"
  shows "snd (redirect_to_file K (Some sc) fl ''err'' False w) =
           w\<lparr>trace := trace w @ target_block K (environ w) (now w) (err sc) fl [2]\<rparr>"
proof -
  have le: "\<And>t p fl. (os_open K t p fl \<le> 0) = (os_open K t p fl < 0)"
    using nz by (simp add: order_less_le)
  show ?thesis
    by (simp add: redirect_to_file_def target_block_def open_dup_close_def sys_defs le
        split: option.splits)
qed

lemma redirect_to_file_cd_out:
  assumes nz: "\<And>t p fl. os_open K t p fl \<noteq> 0"
  shows "snd (redirect_to_file K (Some sc) fl ''out'' True w) =
           w\<lparr>trace := trace w @
               (case get_word (environ w) (out sc) of
                  None \<Rightarrow> []
                | Some name \<Rightarrow>
                    open_dup_close K (now w) name O_WRONLY_CREAT_TRUNC [] @
                    (if os_open K (now w) name O_WRONLY_CREAT_TRUNC < 0 then []
                     else target_block K (environ w) (now w + 2) (err sc)
                            O_WRONLY_CREAT_TRUNC [2]))\<rparr>"
proof -
  have le: "\<And>t p fl. (os_open K t p fl \<le> 0) = (os_open K t p fl < 0)"
    using nz by (simp add: order_less_le)
  show ?thesis
    by (simp add: redirect_to_file_def target_block_def open_dup_close_def sys_defs le
        eval_nat_numeral split: option.splits)
qed

lemma cmd_redirection_blocks:
  assumes nz: "\<And>t p fl. os_open K t p fl \<noteq> 0"
  shows "snd (cmd_redirection K sc w) =
           w\<lparr>trace := trace w @
               (if io_flags sc = IO_OTHER
                then [EStderr (''Invalid redirection mode'' @ [CHR 0x0A])]
                else
                  (let e = environ w;
                       fl = mode_flags (io_flags sc);
                       inb = target_block K e (now w) (inp sc) O_RDONLY [0];
                       t1 = now w + length inb;
                       outb = target_block K e t1 (out sc) fl [1];
                       errb = target_block K e (t1 + length outb) (err sc) fl [2]
                   in inb @
                      (case get_word e (out sc) of
                         None \<Rightarrow> outb @ errb
                       | Some path \<Rightarrow>
                           if get_word e (err sc) = Some path
                           then open_dup_close K t1 path fl [1, 2]
                           else outb @ errb)))\<rparr>"
proof (cases "io_flags sc = IO_OTHER")
  case True
  then show ?thesis
    by (simp add: cmd_redirection_def emit_def)
next
  case False
  have nw: "now (v\<lparr>trace := trace v @ es\<rparr>) = now v + length es" for v :: world and es
    by (simp add: now_def)
  have fl: "(case io_flags sc of
               IO_REGULAR \<Rightarrow> Some O_WRONLY_CREAT_TRUNC
             | IO_OUT_APPEND \<Rightarrow> Some O_WRONLY_CREAT_APPEND
             | IO_ERR_APPEND \<Rightarrow> Some O_WRONLY_CREAT_APPEND
             | IO_OTHER \<Rightarrow> None) = Some (mode_flags (io_flags sc))"
    using False by (cases "io_flags sc") (simp_all add: mode_flags_def)
  have none: "target_block K e t tg f cs = []" if "get_word e tg = None" for e t tg f cs
    using that by (simp add: target_block_def)
  show ?thesis
    using False
    by (auto simp: cmd_redirection_def fl redirect_to_file_in [OF nz] redirect_to_file_out [OF nz]
        redirect_to_file_err [OF nz] nw none Let_def sys_open_eq sys_dup2_eq sys_close_def
        emit_def open_dup_close_def eval_nat_numeral add.assoc
        split: option.splits)
qed

text \<open>
  Claim C9, amended. In a process where \<^verbatim>\<open>open\<close> never returns descriptor 0 (its
  standard input is open), the calls of the redirection step are, on every path,
  a sequence of blocks, one for each target that it handles: the \<^verbatim>\<open>open\<close> of the
  target and, when that returns a descriptor, the \<^verbatim>\<open>dup2\<close> of the descriptor onto the
  channel of the target (0 for \<^verbatim>\<open>in\<close>, 1 for \<^verbatim>\<open>out\<close>, 2 for \<^verbatim>\<open>err\<close>, 1 and then 2 for
  a target shared by \<^verbatim>\<open>out\<close> and \<^verbatim>\<open>err\<close>) and then the \<^verbatim>\<open>close\<close> of the descriptor. So
  each descriptor is closed before the next file is opened and before the step
  returns. The one exception is the \<^verbatim>\<open>out\<close> target of \<^verbatim>\<open>cd\<close>: its block has no
  \<^verbatim>\<open>dup2\<close>, the descriptor is opened and closed; the block of the \<^verbatim>\<open>err\<close> target,
  with its \<^verbatim>\<open>dup2\<close> onto channel 2, follows when that open has succeeded.

  The conjuncts are: \<^verbatim>\<open>redirect_to_file\<close> on a null command; with a type that is
  none of the three; with each of the three types outside the \<^verbatim>\<open>cd\<close> path; as \<^verbatim>\<open>cd\<close>
  calls it; and \<^verbatim>\<open>cmd_redirection\<close>.
\<close>

theorem opened_descriptors_are_closed:
  assumes nz: "\<And>t p fl. os_open K t p fl \<noteq> 0"
  shows "snd (redirect_to_file K None fl ty cd w) = w
       \<and> (ty \<noteq> ''in'' \<and> ty \<noteq> ''out'' \<and> ty \<noteq> ''err'' \<longrightarrow>
            snd (redirect_to_file K (Some sc) fl ty cd w) =
              w\<lparr>trace := trace w @ [EStderr (''Invalid redirection type'' @ [CHR 0x0A])]\<rparr>)
       \<and> snd (redirect_to_file K (Some sc) fl ''in'' False w) =
            w\<lparr>trace := trace w @ target_block K (environ w) (now w) (inp sc) O_RDONLY [0]\<rparr>
       \<and> snd (redirect_to_file K (Some sc) fl ''out'' False w) =
            w\<lparr>trace := trace w @ target_block K (environ w) (now w) (out sc) fl [1]\<rparr>
       \<and> snd (redirect_to_file K (Some sc) fl ''err'' False w) =
            w\<lparr>trace := trace w @ target_block K (environ w) (now w) (err sc) fl [2]\<rparr>
       \<and> snd (redirect_to_file K (Some sc) fl ''out'' True w) =
            w\<lparr>trace := trace w @
                (case get_word (environ w) (out sc) of
                   None \<Rightarrow> []
                 | Some name \<Rightarrow>
                     open_dup_close K (now w) name O_WRONLY_CREAT_TRUNC [] @
                     (if os_open K (now w) name O_WRONLY_CREAT_TRUNC < 0 then []
                      else target_block K (environ w) (now w + 2) (err sc)
                             O_WRONLY_CREAT_TRUNC [2]))\<rparr>
       \<and> snd (cmd_redirection K sc w) =
            w\<lparr>trace := trace w @
                (if io_flags sc = IO_OTHER
                 then [EStderr (''Invalid redirection mode'' @ [CHR 0x0A])]
                 else
                   (let e = environ w;
                        fl = mode_flags (io_flags sc);
                        inb = target_block K e (now w) (inp sc) O_RDONLY [0];
                        t1 = now w + length inb;
                        outb = target_block K e t1 (out sc) fl [1];
                        errb = target_block K e (t1 + length outb) (err sc) fl [2]
                    in inb @
                       (case get_word e (out sc) of
                          None \<Rightarrow> outb @ errb
                        | Some path \<Rightarrow>
                            if get_word e (err sc) = Some path
                            then open_dup_close K t1 path fl [1, 2]
                            else outb @ errb)))\<rparr>"
proof -
  have null: "snd (redirect_to_file K None fl ty cd w) = w"
    by (simp add: redirect_to_file_def)
  have other: "snd (redirect_to_file K (Some sc) fl ty cd w) =
      w\<lparr>trace := trace w @ [EStderr (''Invalid redirection type'' @ [CHR 0x0A])]\<rparr>"
    if "ty \<noteq> ''in''" "ty \<noteq> ''out''" "ty \<noteq> ''err''"
    using that by (simp add: redirect_to_file_def emit_def)
  show ?thesis
    using null other redirect_to_file_in [OF nz, of sc fl w]
      redirect_to_file_out [OF nz, of sc fl w] redirect_to_file_err [OF nz, of sc fl w]
      redirect_to_file_cd_out [OF nz, of sc fl w] cmd_redirection_blocks [OF nz, of sc w]
    by (intro conjI impI) simp_all
qed

text \<open>
  Two instances, in the kernel where every call succeeds: \<^verbatim>\<open>ls < i > o 2> e\<close> as
  \<^verbatim>\<open>cmd_redirection\<close> handles it, and \<^verbatim>\<open>cd /tmp > o 2> e\<close>.
\<close>

theorem opened_descriptors_are_closed_witness:
  "(\<forall>t p fl. os_open os_ok t p fl \<noteq> 0)
   \<and> snd (cmd_redirection os_ok
         ((simple ''ls'' None)\<lparr>inp := Some (lit ''i''), out := Some (lit ''o''), err := Some (lit ''e'')\<rparr>)
         w0) =
       w0\<lparr>trace :=
           [EOpen ''i'' O_RDONLY 3, EDup2 3 0 0, EClose 3,
            EOpen ''o'' O_WRONLY_CREAT_TRUNC 3, EDup2 3 1 1, EClose 3,
            EOpen ''e'' O_WRONLY_CREAT_TRUNC 3, EDup2 3 2 2, EClose 3]\<rparr>
   \<and> snd (redirect_to_file os_ok
         (Some ((simple ''cd'' (Some (lit ''/tmp'')))\<lparr>out := Some (lit ''o''), err := Some (lit ''e'')\<rparr>))
         O_WRONLY_CREAT_TRUNC ''out'' True w0) =
       w0\<lparr>trace :=
           [EOpen ''o'' O_WRONLY_CREAT_TRUNC 3, EClose 3,
            EOpen ''e'' O_WRONLY_CREAT_TRUNC 3, EDup2 3 2 2, EClose 3]\<rparr>"
proof -
  have nz: "\<And>t p fl. os_open os_ok t p fl \<noteq> 0"
    by (simp add: os_ok_def)
  show ?thesis
    using opened_descriptors_are_closed [OF nz, of O_WRONLY_CREAT_TRUNC "''in''" False w0
        "(simple ''ls'' None)\<lparr>inp := Some (lit ''i''), out := Some (lit ''o''), err := Some (lit ''e'')\<rparr>"]
      opened_descriptors_are_closed [OF nz, of O_WRONLY_CREAT_TRUNC "''in''" False w0
        "(simple ''cd'' (Some (lit ''/tmp'')))\<lparr>out := Some (lit ''o''), err := Some (lit ''e'')\<rparr>"]
      nz
    by (simp add: fixture_defs target_block_def open_dup_close_def mode_flags_def get_word_def
        now_def Let_def)
qed

text \<open>
  Outside the amended claim: when \<^verbatim>\<open>open\<close> returns descriptor 0, \<^verbatim>\<open>redirect_to_file\<close>
  takes it for a failure and returns without closing it.
\<close>

lemma descriptor_zero_is_left_open:
  "redirect_to_file (os_ok\<lparr>os_open := (\<lambda>t p fl. 0)\<rparr>)
       (Some ((simple ''ls'' None)\<lparr>out := Some (lit ''o'')\<rparr>)) O_WRONLY_CREAT_TRUNC ''out'' False w0 =
     (- 1, w0\<lparr>trace := [EOpen ''o'' O_WRONLY_CREAT_TRUNC 0]\<rparr>)"
  by (simp add: fixture_defs leaf_defs sys_defs)

section \<open>Variable assignment\<close>

lemma environ_cmd_redirection [simp]:
  "environ (snd (cmd_redirection K s w)) = environ w"
  by (cases "io_flags s")
    (auto simp: cmd_redirection_def sys_open_eq sys_dup2_eq sys_close_def Let_def
      split: option.splits)

text \<open>
  Claim C10. Let the resolved verb of a command contain \<^verbatim>\<open>=\<close>.

  When the verb has fewer than three fragments (no second one, or no third one),
  \<^verbatim>\<open>parse_simple\<close> runs the command as an external command: it calls \<^verbatim>\<open>fork\<close>. When
  \<^verbatim>\<open>fork\<close> fails the result is -1. In the child (\<^verbatim>\<open>fork\<close> has returned 0) the
  redirections of the command are made and, unless they fail, \<^verbatim>\<open>execvp\<close> is called
  with the resolved verb as the program and the argument vector of the command;
  when \<^verbatim>\<open>execvp\<close> returns, the child prints the diagnostic and calls \<^verbatim>\<open>exit\<close>. In the
  parent, \<^verbatim>\<open>waitpid\<close> is called for the child, and the result is -1 when that fails,
  the child's exit code when it has exited, and 0 otherwise.

  When the verb has a third fragment, no process is made: with no text in the
  first fragment the result is -1; otherwise \<^verbatim>\<open>setenv\<close> is called with the text of
  the first fragment, unresolved, as the name and the resolution of the chain from
  the third fragment on as the value, and the result is 0 when \<^verbatim>\<open>setenv\<close> returns 0
  (the variable is then set) and -1 otherwise.
\<close>

theorem assignment_needs_three_fragments:
  assumes "CHR ''='' \<in> set (get_word_parts (environ w) (verb s))"
  shows "((next_part (verb s) = None
           \<or> (\<exists>p. next_part (verb s) = Some p \<and> next_part p = None))
          \<longrightarrow>
          parse_simple SE K (Some s) w =
            (let file = get_word_parts (environ w) (verb s);
                 argv = get_argv (environ w) s;
                 pid = os_fork K (now w);
                 wf = w\<lparr>trace := trace w @ [EFork pid]\<rparr>
             in if pid = - 1 then (Returns (- 1), wf)
                else if pid = 0 then
                  (case cmd_redirection K s wf of
                     (ret_redir, w2) \<Rightarrow>
                       if ret_redir < 0 then (Returns (- 1), w2)
                       else
                         (case os_execvp K (now w2) file argv of
                            None \<Rightarrow>
                              (Execs file argv, w2\<lparr>trace := trace w2 @ [EExecvp file argv]\<rparr>)
                          | Some exec_ret \<Rightarrow>
                              (Exits exec_ret,
                               w2\<lparr>trace := trace w2 @ [EExecvp file argv] @
                                  (if exec_ret < 0
                                   then [EStderr (''Execution failed for '' @ [CHR 0x27] @ file
                                                  @ [CHR 0x27, CHR 0x0A])]
                                   else [])\<rparr>)))
                else
                  (case os_waitpid K (now w + 1) pid of
                     (ret_pid, status) \<Rightarrow>
                       (Returns (if ret_pid < 0 then - 1
                                 else if WIFEXITED status then WEXITSTATUS status
                                 else 0),
                        w\<lparr>trace := trace w @ [EFork pid, EWaitpid pid ret_pid status]\<rparr>))))
       \<and> (\<forall>p third. next_part (verb s) = Some p \<and> next_part p = Some third \<longrightarrow>
            parse_simple SE K (Some s) w =
              (case string (verb s) of
                 None \<Rightarrow> (Returns (- 1), w)
               | Some name \<Rightarrow>
                   (let val = get_word_parts (environ w) third;
                        r = os_setenv K (now w) name val
                    in (Returns (if r = 0 then 0 else - 1),
                        \<lparr>environ = (if r = 0 then (environ w)(name \<mapsto> val) else environ w),
                         trace = trace w @ [ESetenv name val r]\<rparr>))))"
proof -
  have nb: "get_word_parts (environ w) (verb s) \<noteq> ''cd''"
    "get_word_parts (environ w) (verb s) \<noteq> ''exit''"
    "get_word_parts (environ w) (verb s) \<noteq> ''quit''"
    using assms by auto
  have ext: "parse_simple SE K (Some s) w =
            (let file = get_word_parts (environ w) (verb s);
                 argv = get_argv (environ w) s;
                 pid = os_fork K (now w);
                 wf = w\<lparr>trace := trace w @ [EFork pid]\<rparr>
             in if pid = - 1 then (Returns (- 1), wf)
                else if pid = 0 then
                  (case cmd_redirection K s wf of
                     (ret_redir, w2) \<Rightarrow>
                       if ret_redir < 0 then (Returns (- 1), w2)
                       else
                         (case os_execvp K (now w2) file argv of
                            None \<Rightarrow>
                              (Execs file argv, w2\<lparr>trace := trace w2 @ [EExecvp file argv]\<rparr>)
                          | Some exec_ret \<Rightarrow>
                              (Exits exec_ret,
                               w2\<lparr>trace := trace w2 @ [EExecvp file argv] @
                                  (if exec_ret < 0
                                   then [EStderr (''Execution failed for '' @ [CHR 0x27] @ file
                                                  @ [CHR 0x27, CHR 0x0A])]
                                   else [])\<rparr>)))
                else
                  (case os_waitpid K (now w + 1) pid of
                     (ret_pid, status) \<Rightarrow>
                       (Returns (if ret_pid < 0 then - 1
                                 else if WIFEXITED status then WEXITSTATUS status
                                 else 0),
                        w\<lparr>trace := trace w @ [EFork pid, EWaitpid pid ret_pid status]\<rparr>)))"
    if na: "assign_value (environ w) s = None"
  proof -
    consider (failed) "os_fork K (now w) = - 1" | (child) "os_fork K (now w) = 0"
      | (parent) "os_fork K (now w) \<noteq> - 1" "os_fork K (now w) \<noteq> 0"
      by blast
    then show ?thesis
    proof cases
      case failed
      then show ?thesis
        using na nb
        by (simp add: parse_simple_def external_command_def sys_fork_def emit_def now_def Let_def)
    next
      case child
      obtain r w2 where cr: "cmd_redirection K s (w\<lparr>trace := trace w @ [EFork 0]\<rparr>) = (r, w2)"
        by (cases "cmd_redirection K s (w\<lparr>trace := trace w @ [EFork 0]\<rparr>)")
      have e2: "environ w2 = environ w"
        using environ_cmd_redirection [of K s "w\<lparr>trace := trace w @ [EFork 0]\<rparr>"] cr by simp
      show ?thesis
        using na nb child cr e2
        by (simp add: parse_simple_def external_command_def sys_fork_def sys_execvp_def emit_def
            now_def Let_def split: option.splits)
    next
      case parent
      obtain rp st where wp:
        "os_waitpid K (now w + 1) (os_fork K (now w)) = (rp, st)"
        by (cases "os_waitpid K (now w + 1) (os_fork K (now w))")
      show ?thesis
        using na nb parent wp
        by (simp add: parse_simple_def external_command_def sys_fork_def sys_waitpid_def emit_def
            now_def Let_def)
    qed
  qed
  have few: "assign_value (environ w) s = None"
    if "next_part (verb s) = None \<or> (\<exists>p. next_part (verb s) = Some p \<and> next_part p = None)"
    using that by (auto simp: assign_value_def)
  have asg: "parse_simple SE K (Some s) w =
              (case string (verb s) of
                 None \<Rightarrow> (Returns (- 1), w)
               | Some name \<Rightarrow>
                   (let val = get_word_parts (environ w) third;
                        r = os_setenv K (now w) name val
                    in (Returns (if r = 0 then 0 else - 1),
                        \<lparr>environ = (if r = 0 then (environ w)(name \<mapsto> val) else environ w),
                         trace = trace w @ [ESetenv name val r]\<rparr>)))"
    if "next_part (verb s) = Some p" "next_part p = Some third" for p third
    using that assms nb
    by (auto simp: parse_simple_def assign_value_def assign_variable_def get_word_def
        sys_setenv_def emit_def Let_def split: option.splits)
  show ?thesis
  proof (intro conjI impI allI)
    assume "next_part (verb s) = None \<or> (\<exists>p. next_part (verb s) = Some p \<and> next_part p = None)"
    then show "parse_simple SE K (Some s) w =
            (let file = get_word_parts (environ w) (verb s);
                 argv = get_argv (environ w) s;
                 pid = os_fork K (now w);
                 wf = w\<lparr>trace := trace w @ [EFork pid]\<rparr>
             in if pid = - 1 then (Returns (- 1), wf)
                else if pid = 0 then
                  (case cmd_redirection K s wf of
                     (ret_redir, w2) \<Rightarrow>
                       if ret_redir < 0 then (Returns (- 1), w2)
                       else
                         (case os_execvp K (now w2) file argv of
                            None \<Rightarrow>
                              (Execs file argv, w2\<lparr>trace := trace w2 @ [EExecvp file argv]\<rparr>)
                          | Some exec_ret \<Rightarrow>
                              (Exits exec_ret,
                               w2\<lparr>trace := trace w2 @ [EExecvp file argv] @
                                  (if exec_ret < 0
                                   then [EStderr (''Execution failed for '' @ [CHR 0x27] @ file
                                                  @ [CHR 0x27, CHR 0x0A])]
                                   else [])\<rparr>)))
                else
                  (case os_waitpid K (now w + 1) pid of
                     (ret_pid, status) \<Rightarrow>
                       (Returns (if ret_pid < 0 then - 1
                                 else if WIFEXITED status then WEXITSTATUS status
                                 else 0),
                        w\<lparr>trace := trace w @ [EFork pid, EWaitpid pid ret_pid status]\<rparr>)))"
      by (rule ext [OF few])
  next
    fix p third
    assume "next_part (verb s) = Some p \<and> next_part p = Some third"
    then show "parse_simple SE K (Some s) w =
              (case string (verb s) of
                 None \<Rightarrow> (Returns (- 1), w)
               | Some name \<Rightarrow>
                   (let val = get_word_parts (environ w) third;
                        r = os_setenv K (now w) name val
                    in (Returns (if r = 0 then 0 else - 1),
                        \<lparr>environ = (if r = 0 then (environ w)(name \<mapsto> val) else environ w),
                         trace = trace w @ [ESetenv name val r]\<rparr>)))"
      using asg by blast
  qed
qed

text \<open>
  Three instances. The one-fragment verb \<^verbatim>\<open>A=B\<close> is run as a program: the parent
  forks and waits, and the child calls \<^verbatim>\<open>execvp\<close> with \<^verbatim>\<open>A=B\<close>. The three fragments
  \<^verbatim>\<open>X\<close>, \<^verbatim>\<open>=\<close>, \<^verbatim>\<open>1\<close> set \<^verbatim>\<open>X\<close> to \<^verbatim>\<open>1\<close>.
\<close>

theorem assignment_needs_three_fragments_witness:
  "CHR ''='' \<in> set (get_word_parts (environ w0) (verb (simple ''A=B'' None)))
   \<and> next_part (verb (simple ''A=B'' None)) = None
   \<and> parse_simple (- 100) os_ok (Some (simple ''A=B'' None)) w0 =
       (Returns 0, w0\<lparr>trace := [EFork 1000, EWaitpid 1000 1000 (Exited 0)]\<rparr>)
   \<and> parse_simple (- 100) (os_ok\<lparr>os_fork := (\<lambda>t. 0)\<rparr>) (Some (simple ''A=B'' None)) w0 =
       (Execs ''A=B'' [''A=B''], w0\<lparr>trace := [EFork 0, EExecvp ''A=B'' [''A=B'']]\<rparr>)
   \<and> CHR ''='' \<in> set (get_word_parts (environ w0)
         (verb ((simple ''x'' None)\<lparr>verb := word3 ''X'' ''='' ''1''\<rparr>)))
   \<and> parse_simple (- 100) os_ok (Some ((simple ''x'' None)\<lparr>verb := word3 ''X'' ''='' ''1''\<rparr>)) w0 =
       (Returns 0, \<lparr>environ = [''X'' \<mapsto> ''1''], trace = [ESetenv ''X'' ''1'' 0]\<rparr>)"
proof -
  let ?a = "simple ''A=B'' None"
  let ?b = "(simple ''x'' None)\<lparr>verb := word3 ''X'' ''='' ''1''\<rparr>"
  let ?C = "os_ok\<lparr>os_fork := (\<lambda>t. 0)\<rparr>"
  have a: "CHR ''='' \<in> set (get_word_parts (environ w0) (verb ?a))"
    by (simp add: fixture_defs)
  have b: "CHR ''='' \<in> set (get_word_parts (environ w0) (verb ?b))"
    by (simp add: fixture_defs)
  have red: "cmd_redirection ?C ?a v = (0, v)" for v
    by (simp add: fixture_defs cmd_redirection_def redirect_to_file_def get_word_def)
  have argv: "get_argv (environ w0) ?a = [''A=B'']" "get_word_parts (environ w0) (verb ?a) = ''A=B''"
    by (simp_all add: fixture_defs get_argv_def)
  show ?thesis
    using assignment_needs_three_fragments [OF a, of "- 100" os_ok]
      assignment_needs_three_fragments [OF a, of "- 100" ?C]
      assignment_needs_three_fragments [OF b, of "- 100" os_ok] a b red argv
    by (simp add: fixture_defs now_def Let_def)
qed

end
